theory Spec2Isabelle
  imports Complex_Main "HOL-Library.Char_ord" "HOL-Library.List_Lexorder" "HOL-Library.Multiset"
begin

section \<open>Water consumption forecast service (backend/main.py)\<close>

text \<open>
  A shallow embedding of the request handlers of \<^verbatim>\<open>backend/main.py\<close>.
  The process-wide values the module computes once at import time (the table \<^verbatim>\<open>df\<close>,
  the three unpickled regressors, the imported scikit-learn scoring functions) are the
  fields of one environment record that every handler receives.

  Python floats are embedded as \<^typ>\<open>real\<close>: the arithmetic is exact, and the IEEE
  special values (NaN, the infinities) and rounding are outside this model.
  An exception is a value: a handler returns \<open>failure + response\<close>, where \<open>Inl\<close> is
  either the \<^verbatim>\<open>HTTPException\<close> the handler raises itself or an exception that leaves
  the handler uncaught (which the framework answers with status 500).
\<close>

subsection \<open>Table rows, exceptions, regressors\<close>

text \<open>
  One row of \<^verbatim>\<open>df\<close>. The columns the handlers name are fields; all the other
  covariates, which only the regressors read, are one opaque value of type \<open>'c\<close>.
  A missing \<^verbatim>\<open>Country\<close> cell (pandas NaN) is \<open>None\<close>.
  \<^verbatim>\<open>hist[FEATURE_COLUMNS]\<close> keeps every column except the target, which is the
  truncation of a \<open>hist_row\<close> to a \<open>feature_row\<close>.
\<close>

record 'c feature_row =
  Country :: "string option"
  Year :: int
  Covariates :: 'c

record 'c hist_row = "'c feature_row" +
  Target :: real

datatype py_exception =
    ValueError string
  | IndexError string
  | OtherError string

fun str_of_exception :: "py_exception \<Rightarrow> string" where
  "str_of_exception (ValueError s) = s"
| "str_of_exception (IndexError s) = s"
| "str_of_exception (OtherError s) = s"

datatype failure =
    HTTPException nat string
  | Uncaught py_exception

fun status_code :: "failure + 'a \<Rightarrow> nat" where
  "status_code (Inr _) = 200"
| "status_code (Inl (HTTPException code _)) = code"
| "status_code (Inl (Uncaught _)) = 500"

text \<open>\<^verbatim>\<open>model.predict(X)\<close>: an array of numbers, or an exception.\<close>

type_synonym 'c model = "'c feature_row list \<Rightarrow> py_exception + real list"

type_synonym sk_metric = "real list \<Rightarrow> real list \<Rightarrow> py_exception + real"

record 'c env =
  df :: "'c hist_row list"
  lasso_fixed :: "'c model"
  ridge_fixed :: "'c model"
  knn_fixed :: "'c model"
  mean_absolute_error :: sk_metric
  mean_squared_error :: sk_metric
  r2_score :: sk_metric

text \<open>\<^verbatim>\<open>COUNTRIES = sorted(df["Country"].dropna().unique().tolist())\<close>\<close>

definition COUNTRIES :: "'c env \<Rightarrow> string list" where
  "COUNTRIES e = sort (remdups (List.map_filter Country (df e)))"

text \<open>The dict \<^verbatim>\<open>model_map\<close>, in insertion order.\<close>

definition model_map :: "'c env \<Rightarrow> (string \<times> 'c model) list" where
  "model_map e =
     [(''lasso'', lasso_fixed e), (''ridge'', ridge_fixed e), (''knn'', knn_fixed e)]"

text \<open>\<^verbatim>\<open>df[df["Country"] == country].sort_values("Year")\<close>\<close>

definition hist_of :: "'c env \<Rightarrow> string \<Rightarrow> 'c hist_row list" where
  "hist_of e c = sort_key Year (filter (\<lambda>r. Country r = Some c) (df e))"

definition build_features ::
  "'c env \<Rightarrow> string \<Rightarrow> py_exception + ('c hist_row list \<times> 'c feature_row list \<times> real list)" where
  "build_features e c =
     (let hist = hist_of e c in
      if hist = [] then Inl (ValueError (''No data for country '' @ c))
      else Inr (hist, map feature_row.truncate hist, map Target hist))"

subsection \<open>Library functions the handlers call\<close>

text \<open>
  \<^verbatim>\<open>str.lower\<close> on the ASCII letters; every other character is left as it is.
\<close>

definition lower_char :: "char \<Rightarrow> char" where
  "lower_char c =
     (case map_of (zip ''ABCDEFGHIJKLMNOPQRSTUVWXYZ'' ''abcdefghijklmnopqrstuvwxyz'') c of
        Some d \<Rightarrow> d
      | None \<Rightarrow> c)"

definition lower :: "string \<Rightarrow> string" where
  "lower s = map lower_char s"

text \<open>
  \<^verbatim>\<open>np.array(a) - np.array(b)\<close> on one-dimensional arrays: elementwise on equal
  lengths, a length-one operand is broadcast, any other pair of shapes raises.
\<close>

definition np_sub :: "real list \<Rightarrow> real list \<Rightarrow> py_exception + real list" where
  "np_sub a b =
     (if length a = length b then Inr (map2 (-) a b)
      else if length a = 1 then Inr (map (\<lambda>y. hd a - y) b)
      else if length b = 1 then Inr (map (\<lambda>x. x - hd b) a)
      else Inl (ValueError ''operands could not be broadcast together''))"

text \<open>\<^verbatim>\<open>np.mean\<close> and \<^verbatim>\<open>np.std\<close> (population standard deviation, \<^verbatim>\<open>ddof=0\<close>).\<close>

definition np_mean :: "real list \<Rightarrow> real" where
  "np_mean xs = sum_list xs / real (length xs)"

definition np_std :: "real list \<Rightarrow> real" where
  "np_std xs = sqrt (np_mean (map (\<lambda>x. \<bar>x - np_mean xs\<bar>\<^sup>2) xs))"

subsection \<open>POST /predict\<close>

record PredictInput =
  country :: string
  year :: int
  models :: "string list"

record predict_response =
  p_model_used :: string
  p_years :: "int list"
  p_values :: "real list"
  p_current :: real
  p_predicted :: real
  p_change :: real
  p_band :: "(real \<times> real) list"
  p_metrics :: "string \<rightharpoonup> real"

text \<open>
  \<^verbatim>\<open>X_pred = X_hist.iloc[-1:].copy(); X_pred["Year"] = year; X_pred["Country"] = country\<close>
\<close>

definition future_row :: "'c feature_row list \<Rightarrow> string \<Rightarrow> int \<Rightarrow> 'c feature_row list" where
  "future_row X_hist c y =
     map (\<lambda>r. r\<lparr>Year := y, Country := Some c\<rparr>) (drop (length X_hist - 1) X_hist)"

text \<open>
  The \<^verbatim>\<open>for m in body.models: ... break / else: ...\<close> loop of lines 107 to 115.
\<close>

fun select_model :: "'c env \<Rightarrow> string list \<Rightarrow> string \<times> 'c model" where
  "select_model e [] = (''lasso'', lasso_fixed e)"
| "select_model e (m # ms) =
     (case map_of (model_map e) (lower m) of
        Some mdl \<Rightarrow> (lower m, mdl)
      | None \<Rightarrow> select_model e ms)"

text \<open>
  The \<^verbatim>\<open>try\<close> block of lines 118 to 122: both calls of the regressor and the read of
  element 0 are inside it, so each of their failures becomes the 500 response.
\<close>

definition run_model ::
  "'c model \<Rightarrow> 'c feature_row list \<Rightarrow> 'c feature_row list \<Rightarrow> failure + (real list \<times> real)" where
  "run_model mdl X_hist X_pred =
     (case mdl X_hist of
        Inl ex \<Rightarrow> Inl (HTTPException 500 (''Prediction failed: '' @ str_of_exception ex))
      | Inr y_fit \<Rightarrow>
          (case mdl X_pred of
             Inl ex \<Rightarrow> Inl (HTTPException 500 (''Prediction failed: '' @ str_of_exception ex))
           | Inr [] \<Rightarrow>
               Inl (HTTPException 500 (''Prediction failed: '' @ ''index 0 is out of bounds''))
           | Inr (v # _) \<Rightarrow> Inr (y_fit, v)))"

definition residual_std :: "real list \<Rightarrow> real" where
  "residual_std errors = (if length errors \<noteq> 0 then np_std errors else 0)"

definition predict :: "'c env \<Rightarrow> PredictInput \<Rightarrow> failure + predict_response" where
  "predict e body =
     (if country body \<notin> set (COUNTRIES e)
      then Inl (HTTPException 400 (''Invalid country: '' @ country body))
      else
        (case build_features e (country body) of
           Inl ex \<Rightarrow> Inl (Uncaught ex)
         | Inr (hist, X_hist, y_true) \<Rightarrow>
             (let X_pred = future_row X_hist (country body) (year body);
                  (model_key, mdl) = select_model e (models body)
              in case run_model mdl X_hist X_pred of
                   Inl f \<Rightarrow> Inl f
                 | Inr (y_fit, y_future) \<Rightarrow>
                     if y_fit = [] then Inl (Uncaught (IndexError ''index -1 is out of bounds''))
                     else
                       (let current = last y_fit;
                            change = (if current \<noteq> 0
                                      then (y_future - current) / current * 100 else 0)
                        in case np_sub y_true y_fit of
                             Inl ex \<Rightarrow> Inl (Uncaught ex)
                           | Inr errors \<Rightarrow>
                               (let std = residual_std errors;
                                    band = map (\<lambda>v. (v - 2 * std, v + 2 * std)) y_fit
                                           @ [(y_future - 2 * std, y_future + 2 * std)]
                                in Inr \<lparr>p_model_used = model_key,
                                        p_years = map Year hist @ [year body],
                                        p_values = y_fit @ [y_future],
                                        p_current = current,
                                        p_predicted = y_future,
                                        p_change = change,
                                        p_band = band,
                                        p_metrics = Map.empty\<rparr>)))))"

subsection \<open>GET /compare\<close>

record compare_response =
  c_years :: "int list"
  c_lasso :: "real list"
  c_ridge :: "real list"
  c_knn :: "real list"

text \<open>The loop of lines 156 to 162 over \<^verbatim>\<open>model_map.items()\<close>, filling \<^verbatim>\<open>model_results\<close>.\<close>

fun compare_loop ::
  "(string \<times> 'c model) list \<Rightarrow> 'c feature_row list \<Rightarrow> (string \<rightharpoonup> real list) \<Rightarrow> (string \<rightharpoonup> real list)" where
  "compare_loop [] X_hist model_results = model_results"
| "compare_loop ((name, mdl) # rest) X_hist model_results =
     compare_loop rest X_hist
       (model_results(name \<mapsto> (case mdl X_hist of Inr preds \<Rightarrow> preds | Inl ex \<Rightarrow> [])))"

text \<open>\<^verbatim>\<open>d.get(k, default)\<close>\<close>

definition dict_get :: "('k \<rightharpoonup> 'v) \<Rightarrow> 'k \<Rightarrow> 'v \<Rightarrow> 'v" where
  "dict_get d k dflt = (case d k of Some v \<Rightarrow> v | None \<Rightarrow> dflt)"

definition compare :: "'c env \<Rightarrow> string \<Rightarrow> failure + compare_response" where
  "compare e c =
     (if c \<notin> set (COUNTRIES e) then Inl (HTTPException 400 (''Invalid country: '' @ c))
      else
        (let hist = hist_of e c;
             X_hist = map feature_row.truncate hist;
             model_results = compare_loop (model_map e) X_hist Map.empty
         in Inr \<lparr>c_years = map Year hist,
                 c_lasso = dict_get model_results ''lasso'' [],
                 c_ridge = dict_get model_results ''ridge'' [],
                 c_knn = dict_get model_results ''knn'' []\<rparr>))"

subsection \<open>GET /metrics\<close>

record metric_entry =
  MAE :: "real option"
  RMSE :: "real option"
  R2 :: "real option"
  MAPE :: "real option"

text \<open>
  Lines 194 to 196. The condition \<^verbatim>\<open>nonzero_mask.any()\<close> is evaluated first; only when it
  holds are the two arrays indexed by the mask, and indexing \<^verbatim>\<open>y_pred_arr\<close> by a boolean
  mask of another length raises.
\<close>

definition mape_of :: "real list \<Rightarrow> real list \<Rightarrow> py_exception + real option" where
  "mape_of y_true y_pred =
     (if \<exists>t \<in> set y_true. t \<noteq> 0
      then
        (if length y_pred \<noteq> length y_true
         then Inl (IndexError ''boolean index did not match indexed array'')
         else Inr (Some (np_mean (map (\<lambda>(t, p). \<bar>(t - p) / t\<bar>)
                                      (filter (\<lambda>(t, p). t \<noteq> 0) (zip y_true y_pred))) * 100)))
      else Inr None)"

text \<open>The body of the \<^verbatim>\<open>try\<close> block of lines 184 to 203, for one regressor.\<close>

definition score_model ::
  "'c env \<Rightarrow> 'c model \<Rightarrow> 'c feature_row list \<Rightarrow> real list \<Rightarrow> py_exception + metric_entry" where
  "score_model e mdl X_hist y_true =
     (case mdl X_hist of
        Inl ex \<Rightarrow> Inl ex
      | Inr y_pred \<Rightarrow>
          (case mean_absolute_error e y_true y_pred of
             Inl ex \<Rightarrow> Inl ex
           | Inr mae \<Rightarrow>
               (case mean_squared_error e y_true y_pred of
                  Inl ex \<Rightarrow> Inl ex
                | Inr mse \<Rightarrow>
                    (case r2_score e y_true y_pred of
                       Inl ex \<Rightarrow> Inl ex
                     | Inr r2 \<Rightarrow>
                         (case mape_of y_true y_pred of
                            Inl ex \<Rightarrow> Inl ex
                          | Inr mape \<Rightarrow>
                              Inr \<lparr>MAE = Some mae, RMSE = Some (sqrt mse),
                                   R2 = Some r2, MAPE = mape\<rparr>)))))"

text \<open>
  The \<^verbatim>\<open>try\<close> / \<^verbatim>\<open>except Exception\<close> of lines 183 to 208: the entry stored for one
  regressor.
\<close>

definition entry_of ::
  "'c env \<Rightarrow> 'c model \<Rightarrow> 'c feature_row list \<Rightarrow> real list \<Rightarrow> metric_entry" where
  "entry_of e mdl X_hist y_true =
     (case score_model e mdl X_hist y_true of
        Inr entry \<Rightarrow> entry
      | Inl ex \<Rightarrow> \<lparr>MAE = None, RMSE = None, R2 = None, MAPE = None\<rparr>)"

text \<open>The loop of line 182 over \<^verbatim>\<open>model_map.items()\<close>, filling \<^verbatim>\<open>results\<close>.\<close>

fun metrics_loop ::
  "'c env \<Rightarrow> (string \<times> 'c model) list \<Rightarrow> 'c feature_row list \<Rightarrow> real list \<Rightarrow>
     (string \<rightharpoonup> metric_entry) \<Rightarrow> (string \<rightharpoonup> metric_entry)" where
  "metrics_loop e [] X_hist y_true results = results"
| "metrics_loop e ((name, mdl) # rest) X_hist y_true results =
     metrics_loop e rest X_hist y_true (results(name \<mapsto> entry_of e mdl X_hist y_true))"

definition metrics :: "'c env \<Rightarrow> string \<Rightarrow> failure + (string \<rightharpoonup> metric_entry)" where
  "metrics e c =
     (if c \<notin> set (COUNTRIES e) then Inl (HTTPException 400 (''Invalid country: '' @ c))
      else
        (case build_features e c of
           Inl ex \<Rightarrow> Inl (Uncaught ex)
         | Inr (hist, X_hist, y_true) \<Rightarrow>
             Inr (metrics_loop e (model_map e) X_hist y_true Map.empty)))"

subsection \<open>GET /analysis\<close>

record analysis_response =
  a_years :: "int list"
  a_true_values :: "real list"

definition country_analysis :: "'c env \<Rightarrow> string \<Rightarrow> failure + analysis_response" where
  "country_analysis e c =
     (if c \<notin> set (COUNTRIES e) then Inl (HTTPException 400 (''Invalid country: '' @ c))
      else
        (let hist = hist_of e c in
         if hist = [] then Inl (HTTPException 404 ''No data for this country'')
         else Inr \<lparr>a_years = map Year hist, a_true_values = map Target hist\<rparr>))"

subsection \<open>The contract of a regressor\<close>

text \<open>
  The regressors are opaque artifacts. What the service relies on is that a call that
  returns gives one prediction per input row.
\<close>

definition one_per_row :: "'c model \<Rightarrow> bool" where
  "one_per_row mdl \<longleftrightarrow> (\<forall>X ys. mdl X = Inr ys \<longrightarrow> length ys = length X)"

subsection \<open>A concrete environment\<close>

text \<open>
  A small table (rows out of year order, one row without a country) and three regressors:
  one that predicts 0 everywhere, one that always raises, and a linear one.
  The scoring functions follow scikit-learn on arrays of equal, non-zero length and raise
  otherwise.
\<close>

definition example_df :: "unit hist_row list" where
  "example_df =
     [\<lparr>Country = Some ''Brazil'', Year = 2020, Covariates = (), Target = 110\<rparr>,
      \<lparr>Country = Some ''Chile'', Year = 2001, Covariates = (), Target = 10\<rparr>,
      \<lparr>Country = Some ''Brazil'', Year = 2018, Covariates = (), Target = 100\<rparr>,
      \<lparr>Country = None, Year = 1999, Covariates = (), Target = 7\<rparr>,
      \<lparr>Country = Some ''Nauru'', Year = 2010, Covariates = (), Target = 0\<rparr>,
      \<lparr>Country = Some ''Brazil'', Year = 2019, Covariates = (), Target = 105\<rparr>,
      \<lparr>Country = Some ''Chile'', Year = 2000, Covariates = (), Target = 8\<rparr>]"

definition example_zero :: "unit model" where
  "example_zero X = Inr (map (\<lambda>r. 0) X)"

definition example_broken :: "unit model" where
  "example_broken X = Inl (OtherError ''regressor unavailable'')"

definition example_linear :: "unit model" where
  "example_linear X = Inr (map (\<lambda>r. 4 * real_of_int (Year r) - 7993) X)"

definition example_metric :: "(real list \<Rightarrow> real list \<Rightarrow> real) \<Rightarrow> sk_metric" where
  "example_metric f y_true y_pred =
     (if length y_true = length y_pred \<and> y_true \<noteq> [] then Inr (f y_true y_pred)
      else Inl (ValueError ''Found input variables with inconsistent numbers of samples''))"

definition example_env :: "unit env" where
  "example_env =
     \<lparr>df = example_df,
      lasso_fixed = example_zero,
      ridge_fixed = example_broken,
      knn_fixed = example_linear,
      mean_absolute_error = example_metric (\<lambda>t p. np_mean (map2 (\<lambda>a b. \<bar>a - b\<bar>) t p)),
      mean_squared_error = example_metric (\<lambda>t p. np_mean (map2 (\<lambda>a b. (a - b)\<^sup>2) t p)),
      r2_score = example_metric (\<lambda>t p. 1 - sum_list (map2 (\<lambda>a b. (a - b)\<^sup>2) t p)
                                           / sum_list (map (\<lambda>a. (a - np_mean t)\<^sup>2) t))\<rparr>"

text \<open>Two requests to \<^verbatim>\<open>POST /predict\<close> and the responses they get.\<close>

definition chile_request :: PredictInput where
  "chile_request = \<lparr>country = ''Chile'', year = 2005, models = [''unknown'', ''KNN'']\<rparr>"

definition chile_response :: predict_response where
  "chile_response =
     \<lparr>p_model_used = ''knn'',
      p_years = [2000, 2001, 2005],
      p_values = [7, 11, 27],
      p_current = 11,
      p_predicted = 27,
      p_change = 1600 / 11,
      p_band = [(5, 9), (9, 13), (25, 29)],
      p_metrics = Map.empty\<rparr>"

definition nauru_request :: PredictInput where
  "nauru_request = \<lparr>country = ''Nauru'', year = 2030, models = []\<rparr>"

definition nauru_response :: predict_response where
  "nauru_response =
     \<lparr>p_model_used = ''lasso'',
      p_years = [2010, 2030],
      p_values = [0, 0],
      p_current = 0,
      p_predicted = 0,
      p_change = 0,
      p_band = [(0, 0), (0, 0)],
      p_metrics = Map.empty\<rparr>"

section \<open>Verification\<close>

subsection \<open>The concrete environment, evaluated\<close>

lemma example_countries: "COUNTRIES example_env = [''Brazil'', ''Chile'', ''Nauru'']"
  by (simp add: COUNTRIES_def example_env_def example_df_def List.map_filter_def)

lemma example_models:
  "lasso_fixed example_env = example_zero"
  "ridge_fixed example_env = example_broken"
  "knn_fixed example_env = example_linear"
  by (simp_all add: example_env_def)

lemma hist_chile:
  "hist_of example_env ''Chile'' =
     [\<lparr>Country = Some ''Chile'', Year = 2000, Covariates = (), Target = 8\<rparr>,
      \<lparr>Country = Some ''Chile'', Year = 2001, Covariates = (), Target = 10\<rparr>]"
  by (simp add: hist_of_def example_env_def example_df_def)

lemma hist_brazil:
  "hist_of example_env ''Brazil'' =
     [\<lparr>Country = Some ''Brazil'', Year = 2018, Covariates = (), Target = 100\<rparr>,
      \<lparr>Country = Some ''Brazil'', Year = 2019, Covariates = (), Target = 105\<rparr>,
      \<lparr>Country = Some ''Brazil'', Year = 2020, Covariates = (), Target = 110\<rparr>]"
  by (simp add: hist_of_def example_env_def example_df_def)

lemma hist_nauru:
  "hist_of example_env ''Nauru'' =
     [\<lparr>Country = Some ''Nauru'', Year = 2010, Covariates = (), Target = 0\<rparr>]"
  by (simp add: hist_of_def example_env_def example_df_def)

lemma one_per_row_examples:
  "one_per_row example_zero" "one_per_row example_broken" "one_per_row example_linear"
  by (auto simp add: one_per_row_def example_zero_def example_broken_def example_linear_def)

subsection \<open>The country list and the history of a country\<close>

lemma set_COUNTRIES: "set (COUNTRIES e) = {c. \<exists>r \<in> set (df e). Country r = Some c}"
  by (force simp add: COUNTRIES_def List.map_filter_def)

lemma set_hist_of: "set (hist_of e c) = {r \<in> set (df e). Country r = Some c}"
  by (auto simp add: hist_of_def)

lemma hist_of_nonempty: "c \<in> set (COUNTRIES e) \<Longrightarrow> hist_of e c \<noteq> []"
proof -
  assume "c \<in> set (COUNTRIES e)"
  then obtain r where "r \<in> set (df e)" "Country r = Some c"
    by (auto simp add: set_COUNTRIES)
  then have "r \<in> set (hist_of e c)"
    by (simp add: set_hist_of)
  then show ?thesis by auto
qed

lemma sorted_hist_of: "sorted (map Year (hist_of e c))"
  by (simp add: hist_of_def)

lemma mset_hist_of: "mset (hist_of e c) = mset (filter (\<lambda>r. Country r = Some c) (df e))"
  by (simp add: hist_of_def)

lemma sorted_le_last: "sorted xs \<Longrightarrow> x \<in> set xs \<Longrightarrow> x \<le> last xs"
  by (induction xs) auto

lemma last_hist_of_greatest:
  assumes "r \<in> set (hist_of e c)"
  shows "Year r \<le> Year (last (hist_of e c))"
proof -
  from assms have ne: "hist_of e c \<noteq> []" by auto
  from assms have "Year r \<in> set (map Year (hist_of e c))" by simp
  with sorted_hist_of [of e c] have "Year r \<le> last (map Year (hist_of e c))"
    by (rule sorted_le_last)
  with ne show ?thesis by (simp add: last_map)
qed

lemma future_row_last:
  "X \<noteq> [] \<Longrightarrow> future_row X c y = [(last X)\<lparr>Year := y, Country := Some c\<rparr>]"
proof -
  assume "X \<noteq> []"
  then obtain xs x where X: "X = xs @ [x]"
    by (metis rev_exhaust)
  show ?thesis by (simp add: X future_row_def)
qed

subsection \<open>Model selection\<close>

lemma map_of_model_map:
  "map_of (model_map e) k =
     (if k = ''lasso'' then Some (lasso_fixed e)
      else if k = ''ridge'' then Some (ridge_fixed e)
      else if k = ''knn'' then Some (knn_fixed e) else None)"
  by (simp add: model_map_def)

lemma select_model_no_match:
  "\<forall>m \<in> set ms. lower m \<notin> {''lasso'', ''ridge'', ''knn''} \<Longrightarrow>
   select_model e ms = (''lasso'', lasso_fixed e)"
  by (induction ms) (simp_all add: map_of_model_map)

lemma select_model_skip:
  "\<forall>m \<in> set pre. lower m \<notin> {''lasso'', ''ridge'', ''knn''} \<Longrightarrow>
   select_model e (pre @ ms) = select_model e ms"
  by (induction pre) (simp_all add: map_of_model_map)

lemma select_model_hit:
  "lower m \<in> {''lasso'', ''ridge'', ''knn''} \<Longrightarrow>
   fst (select_model e (m # ms)) = lower m \<and>
   map_of (model_map e) (lower m) = Some (snd (select_model e (m # ms)))"
  by (auto simp add: map_of_model_map)

lemma select_model_key:
  "fst (select_model e ms) \<in> {''lasso'', ''ridge'', ''knn''} \<and>
   map_of (model_map e) (fst (select_model e ms)) = Some (snd (select_model e ms)) \<and>
   (fst (select_model e ms) = ''lasso'' \<or> (\<exists>m \<in> set ms. fst (select_model e ms) = lower m))"
proof (induction ms)
  case Nil
  show ?case by (simp add: map_of_model_map)
next
  case (Cons m ms)
  show ?case
  proof (cases "map_of (model_map e) (lower m)")
    case None
    with Cons show ?thesis by auto
  next
    case (Some mdl)
    then have "lower m \<in> {''lasso'', ''ridge'', ''knn''}"
      by (auto simp add: map_of_model_map split: if_splits)
    with Some show ?thesis by simp
  qed
qed

lemma lower_examples:
  "lower ''unknown'' = ''unknown''" "lower ''KNN'' = ''knn''" "lower ''RIDGE'' = ''ridge''"
  "lower ''Ridge'' = ''ridge''" "lower ''lasso'' = ''lasso''" "lower ''svm'' = ''svm''"
  by (simp_all add: lower_def lower_char_def)

text \<open>
  C2. The requested names are scanned in order and compared, lowercased, with the keys
  \<open>lasso\<close>, \<open>ridge\<close>, \<open>knn\<close>. When no name matches (in particular on the empty list) the
  lasso regressor is selected; otherwise the first matching name decides, whatever comes
  after it. \<open>["RIDGE", "lasso"]\<close> selects ridge and \<open>["unknown"]\<close> selects lasso.
\<close>

theorem select_model_first_match:
  "((\<forall>m \<in> set ms. lower m \<notin> {''lasso'', ''ridge'', ''knn''}) \<longrightarrow>
      select_model e ms = (''lasso'', lasso_fixed e)) \<and>
   ((\<forall>x \<in> set pre. lower x \<notin> {''lasso'', ''ridge'', ''knn''}) \<and>
      lower m \<in> {''lasso'', ''ridge'', ''knn''} \<longrightarrow>
      fst (select_model e (pre @ m # post)) = lower m \<and>
      map_of (model_map e) (lower m) = Some (snd (select_model e (pre @ m # post)))) \<and>
   select_model e [''RIDGE'', ''lasso''] = (''ridge'', ridge_fixed e) \<and>
   select_model e [''unknown''] = (''lasso'', lasso_fixed e) \<and>
   select_model e [] = (''lasso'', lasso_fixed e)"
proof (intro conjI impI)
  assume "\<forall>m \<in> set ms. lower m \<notin> {''lasso'', ''ridge'', ''knn''}"
  then show "select_model e ms = (''lasso'', lasso_fixed e)"
    by (rule select_model_no_match)
next
  assume a: "(\<forall>x \<in> set pre. lower x \<notin> {''lasso'', ''ridge'', ''knn''}) \<and>
      lower m \<in> {''lasso'', ''ridge'', ''knn''}"
  then have skip: "select_model e (pre @ m # post) = select_model e (m # post)"
    by (simp add: select_model_skip)
  from a select_model_hit [of m e post]
  show "fst (select_model e (pre @ m # post)) = lower m"
    and "map_of (model_map e) (lower m) = Some (snd (select_model e (pre @ m # post)))"
    unfolding skip by blast+
next
  show "select_model e [''RIDGE'', ''lasso''] = (''ridge'', ridge_fixed e)"
    by (simp add: map_of_model_map lower_examples)
  show "select_model e [''unknown''] = (''lasso'', lasso_fixed e)"
    by (simp add: map_of_model_map lower_examples)
  show "select_model e [] = (''lasso'', lasso_fixed e)"
    by simp
qed

theorem select_model_first_match_witness:
  "lower ''svm'' \<notin> {''lasso'', ''ridge'', ''knn''} \<and>
   lower ''unknown'' \<notin> {''lasso'', ''ridge'', ''knn''} \<and>
   select_model example_env [''svm'', ''unknown''] = (''lasso'', example_zero) \<and>
   lower ''Ridge'' \<in> {''lasso'', ''ridge'', ''knn''} \<and>
   fst (select_model example_env ([''svm''] @ ''Ridge'' # [''KNN''])) = ''ridge'' \<and>
   map_of (model_map example_env) ''ridge'' =
     Some (snd (select_model example_env ([''svm''] @ ''Ridge'' # [''KNN''])))"
  using select_model_first_match
    [of "[''svm'', ''unknown'']" example_env "[''svm'']" "''Ridge''" "[''KNN'']"]
  by (simp add: lower_examples example_models del: select_model.simps)

subsection \<open>POST /predict\<close>

text \<open>
  C1. A request whose country is not in \<open>COUNTRIES\<close> gets the 400 response, and the
  response is the same whatever the three regressors would do: the membership test
  is decided before the features are built and before any regressor is called.
\<close>

theorem predict_unknown_country:
  "country body \<notin> set (COUNTRIES e) \<Longrightarrow>
   predict e body = Inl (HTTPException 400 (''Invalid country: '' @ country body)) \<and>
   status_code (predict e body) = 400 \<and>
   status_code (predict e body) \<noteq> 500 \<and>
   predict (e\<lparr>lasso_fixed := l, ridge_fixed := r, knn_fixed := k\<rparr>) body = predict e body"
  by (simp add: predict_def COUNTRIES_def)

theorem predict_unknown_country_witness:
  "''Mars'' \<notin> set (COUNTRIES example_env) \<and>
   predict example_env \<lparr>country = ''Mars'', year = 2030, models = [''knn'']\<rparr> =
     Inl (HTTPException 400 ''Invalid country: Mars'') \<and>
   status_code (predict example_env \<lparr>country = ''Mars'', year = 2030, models = [''knn'']\<rparr>) = 400"
  using predict_unknown_country
    [of "\<lparr>country = ''Mars'', year = 2030, models = [''knn'']\<rparr>" example_env]
  by (simp add: example_countries)

lemma np_std_nonneg: "0 \<le> np_std xs"
  unfolding np_std_def np_mean_def
  by (intro real_sqrt_ge_zero divide_nonneg_nonneg sum_list_nonneg) auto

lemma np_sub_same_length:
  "length a = length b \<Longrightarrow> np_sub a b = Inr (map2 (-) a b)"
  by (simp add: np_sub_def)

lemma np_std_example: "np_std [1, -1] = 1"
  by (simp add: np_std_def np_mean_def)

lemma predict_chile: "predict example_env chile_request = Inr chile_response"
proof -
  have sel: "select_model example_env [''unknown'', ''KNN''] = (''knn'', example_linear)"
    by (simp add: map_of_model_map lower_examples example_models)
  show ?thesis
    by (simp add: predict_def chile_request_def chile_response_def example_countries
        build_features_def hist_chile sel future_row_def run_model_def example_linear_def
        feature_row.truncate_def np_sub_def residual_std_def np_std_example
        del: select_model.simps)
qed

lemma predict_nauru: "predict example_env nauru_request = Inr nauru_response"
  by (simp add: predict_def nauru_request_def nauru_response_def example_countries
      build_features_def hist_nauru example_models future_row_def run_model_def
      example_zero_def feature_row.truncate_def np_sub_def residual_std_def np_std_def
      np_mean_def)

lemma predict_InrE:
  assumes "predict e body = Inr r"
  obtains y_fit y_future rest errors where
    "country body \<in> set (COUNTRIES e)"
    "hist_of e (country body) \<noteq> []"
    "snd (select_model e (models body))
       (map feature_row.truncate (hist_of e (country body))) = Inr y_fit"
    "snd (select_model e (models body))
       (future_row (map feature_row.truncate (hist_of e (country body)))
          (country body) (year body)) = Inr (y_future # rest)"
    "y_fit \<noteq> []"
    "np_sub (map Target (hist_of e (country body))) y_fit = Inr errors"
    "r = \<lparr>p_model_used = fst (select_model e (models body)),
          p_years = map Year (hist_of e (country body)) @ [year body],
          p_values = y_fit @ [y_future],
          p_current = last y_fit,
          p_predicted = y_future,
          p_change = (if last y_fit \<noteq> 0 then (y_future - last y_fit) / last y_fit * 100 else 0),
          p_band = map (\<lambda>v. (v - 2 * residual_std errors, v + 2 * residual_std errors)) y_fit
                   @ [(y_future - 2 * residual_std errors, y_future + 2 * residual_std errors)],
          p_metrics = Map.empty\<rparr>"
  using assms
  unfolding predict_def build_features_def run_model_def Let_def
  by (auto split: if_splits sum.splits prod.splits list.splits)

lemma chile_selected:
  "snd (select_model example_env (models chile_request)) = example_linear"
  by (simp add: chile_request_def map_of_model_map lower_examples example_models)

text \<open>
  C3. In a successful response \<open>current\<close> is the last element of the fit of the selected
  regressor over the history, \<open>change\<close> is \<open>(future - current) / current * 100\<close> when
  \<open>current\<close> is not zero, and \<open>change\<close> is 0 when \<open>current\<close> is zero, whatever the
  forecast is.
\<close>

theorem predict_current_change:
  assumes "predict e body = Inr r"
  shows "\<exists>y_fit. snd (select_model e (models body))
                   (map feature_row.truncate (hist_of e (country body))) = Inr y_fit \<and>
           y_fit \<noteq> [] \<and>
           p_values r = y_fit @ [p_predicted r] \<and>
           p_current r = last y_fit \<and>
           (p_current r \<noteq> 0 \<longrightarrow>
              p_change r = (p_predicted r - p_current r) / p_current r * 100) \<and>
           (p_current r = 0 \<longrightarrow> p_change r = 0)"
  using assms by (elim predict_InrE) simp

theorem predict_current_change_witness:
  "predict example_env chile_request = Inr chile_response \<and>
   p_values chile_response = [7, 11] @ [p_predicted chile_response] \<and>
   p_current chile_response = last [7, 11] \<and>
   p_current chile_response \<noteq> 0 \<and>
   p_change chile_response =
     (p_predicted chile_response - p_current chile_response) / p_current chile_response * 100 \<and>
   predict example_env nauru_request = Inr nauru_response \<and>
   p_predicted nauru_response = 0 \<and>
   p_current nauru_response = 0 \<and>
   p_change nauru_response = 0"
  using predict_current_change [OF predict_chile] predict_current_change [OF predict_nauru]
    predict_chile predict_nauru
  by (simp add: chile_response_def nauru_response_def)

text \<open>
  C4. In a successful response of a regressor that returns one prediction per row, the
  band has one entry per historical row and one more for the forecast; entry \<open>i\<close> is
  \<open>(v - 2 * std, v + 2 * std)\<close> for \<open>v = values[i]\<close>, where \<open>std\<close> is the population
  standard deviation of the residuals \<open>true[i] - fit[i]\<close>; so the band brackets every
  value.
\<close>

theorem predict_band:
  assumes "predict e body = Inr r"
    and "one_per_row (snd (select_model e (models body)))"
  shows "\<exists>fit std.
           snd (select_model e (models body))
             (map feature_row.truncate (hist_of e (country body))) = Inr fit \<and>
           length fit = length (hist_of e (country body)) \<and>
           p_values r = fit @ [p_predicted r] \<and>
           std = np_std (map2 (-) (map Target (hist_of e (country body))) fit) \<and>
           length (p_band r) = length (hist_of e (country body)) + 1 \<and>
           (\<forall>i < length (p_band r).
              p_band r ! i = (p_values r ! i - 2 * std, p_values r ! i + 2 * std) \<and>
              fst (p_band r ! i) \<le> p_values r ! i \<and>
              p_values r ! i \<le> snd (p_band r ! i))"
  using assms(1)
proof (elim predict_InrE)
  fix y_fit y_future rest errors
  let ?hist = "hist_of e (country body)"
  assume ne: "?hist \<noteq> []"
    and fit: "snd (select_model e (models body)) (map feature_row.truncate ?hist) = Inr y_fit"
    and sub: "np_sub (map Target ?hist) y_fit = Inr errors"
    and r: "r = \<lparr>p_model_used = fst (select_model e (models body)),
          p_years = map Year ?hist @ [year body],
          p_values = y_fit @ [y_future],
          p_current = last y_fit,
          p_predicted = y_future,
          p_change = (if last y_fit \<noteq> 0 then (y_future - last y_fit) / last y_fit * 100 else 0),
          p_band = map (\<lambda>v. (v - 2 * residual_std errors, v + 2 * residual_std errors)) y_fit
                   @ [(y_future - 2 * residual_std errors, y_future + 2 * residual_std errors)],
          p_metrics = Map.empty\<rparr>"
  from assms(2) fit have len: "length y_fit = length ?hist"
    by (auto simp add: one_per_row_def)
  with sub have errors: "errors = map2 (-) (map Target ?hist) y_fit"
    by (simp add: np_sub_same_length)
  from len ne have "errors \<noteq> []"
    by (auto simp add: errors)
  then have std: "residual_std errors = np_std (map2 (-) (map Target ?hist) y_fit)"
    by (simp add: residual_std_def errors)
  define s where "s = np_std (map2 (-) (map Target ?hist) y_fit)"
  have s0: "0 \<le> s"
    by (simp add: s_def np_std_nonneg)
  have band: "p_band r = map (\<lambda>v. (v - 2 * s, v + 2 * s)) (p_values r)"
    by (simp add: r std s_def)
  have vals: "p_values r = y_fit @ [p_predicted r]"
    by (simp add: r)
  have "\<forall>i < length (p_band r).
          p_band r ! i = (p_values r ! i - 2 * s, p_values r ! i + 2 * s) \<and>
          fst (p_band r ! i) \<le> p_values r ! i \<and> p_values r ! i \<le> snd (p_band r ! i)"
    using s0 by (simp add: band)
  moreover have "length (p_band r) = length ?hist + 1"
    by (simp add: band vals len)
  ultimately show ?thesis
    using fit len vals unfolding s_def by blast
qed

theorem predict_band_witness:
  "predict example_env chile_request = Inr chile_response \<and>
   one_per_row (snd (select_model example_env (models chile_request))) \<and>
   np_std (map2 (-) (map Target (hist_of example_env ''Chile'')) [7, 11]) = 1 \<and>
   length (p_band chile_response) = length (hist_of example_env ''Chile'') + 1 \<and>
   p_band chile_response ! 0 = (p_values chile_response ! 0 - 2 * 1, p_values chile_response ! 0 + 2 * 1) \<and>
   p_band chile_response ! 1 = (p_values chile_response ! 1 - 2 * 1, p_values chile_response ! 1 + 2 * 1) \<and>
   p_band chile_response ! 2 = (p_values chile_response ! 2 - 2 * 1, p_values chile_response ! 2 + 2 * 1) \<and>
   fst (p_band chile_response ! 2) \<le> p_values chile_response ! 2 \<and>
   p_values chile_response ! 2 \<le> snd (p_band chile_response ! 2)"
proof -
  have opr: "one_per_row (snd (select_model example_env (models chile_request)))"
    by (simp only: chile_selected one_per_row_examples)
  show ?thesis
    using predict_band [OF predict_chile opr] predict_chile opr
    by (simp add: chile_response_def hist_chile np_std_example)
qed

text \<open>
  C7. For a request that passes the country check, the one row handed to the regressor
  for the forecast is the feature row of the last historical row, which is a row of the
  country with the greatest year, with \<open>Year\<close> and \<open>Country\<close> overwritten by the
  request's values; the covariates are those of that last row. The forecast of a
  successful response is the regressor's value on exactly this row.
\<close>

theorem future_row_holds_last:
  assumes "country body \<in> set (COUNTRIES e)"
  shows "\<exists>h. h = last (hist_of e (country body)) \<and>
           h \<in> set (df e) \<and> Country h = Some (country body) \<and>
           (\<forall>h' \<in> set (df e). Country h' = Some (country body) \<longrightarrow> Year h' \<le> Year h) \<and>
           last (map feature_row.truncate (hist_of e (country body))) = feature_row.truncate h \<and>
           future_row (map feature_row.truncate (hist_of e (country body)))
               (country body) (year body) =
             [(feature_row.truncate h)\<lparr>Year := year body, Country := Some (country body)\<rparr>] \<and>
           (\<forall>x \<in> set (future_row (map feature_row.truncate (hist_of e (country body)))
                         (country body) (year body)).
              Year x = year body \<and> Country x = Some (country body) \<and>
              Covariates x = Covariates h) \<and>
           (\<forall>r. predict e body = Inr r \<longrightarrow>
              (\<exists>rest. snd (select_model e (models body))
                   [(feature_row.truncate h)\<lparr>Year := year body, Country := Some (country body)\<rparr>]
                 = Inr (p_predicted r # rest)))"
proof -
  let ?c = "country body"
  let ?hist = "hist_of e ?c"
  let ?h = "last ?hist"
  from assms have ne: "?hist \<noteq> []"
    by (rule hist_of_nonempty)
  then have mem: "?h \<in> set ?hist"
    by simp
  then have h1: "?h \<in> set (df e)" and h2: "Country ?h = Some ?c"
    by (simp_all add: set_hist_of)
  have h3: "\<forall>h' \<in> set (df e). Country h' = Some ?c \<longrightarrow> Year h' \<le> Year ?h"
    using last_hist_of_greatest [of _ e ?c] by (simp add: set_hist_of)
  from ne have h4: "last (map feature_row.truncate ?hist) = feature_row.truncate ?h"
    by (simp add: last_map)
  from ne have fr: "future_row (map feature_row.truncate ?hist) ?c (year body) =
      [(feature_row.truncate ?h)\<lparr>Year := year body, Country := Some ?c\<rparr>]"
    by (simp add: future_row_last last_map)
  have h6: "\<forall>x \<in> set (future_row (map feature_row.truncate ?hist) ?c (year body)).
      Year x = year body \<and> Country x = Some ?c \<and> Covariates x = Covariates ?h"
    by (simp add: fr feature_row.truncate_def)
  have h7: "\<forall>r. predict e body = Inr r \<longrightarrow>
      (\<exists>rest. snd (select_model e (models body))
           [(feature_row.truncate ?h)\<lparr>Year := year body, Country := Some ?c\<rparr>]
         = Inr (p_predicted r # rest))"
  proof (intro allI impI)
    fix r
    assume "predict e body = Inr r"
    then show "\<exists>rest. snd (select_model e (models body))
           [(feature_row.truncate ?h)\<lparr>Year := year body, Country := Some ?c\<rparr>]
         = Inr (p_predicted r # rest)"
      by (elim predict_InrE) (simp add: fr)
  qed
  from h1 h2 h3 h4 fr h6 h7 show ?thesis
    by blast
qed

theorem future_row_holds_last_witness:
  "country chile_request \<in> set (COUNTRIES example_env) \<and>
   last (hist_of example_env ''Chile'') =
     \<lparr>Country = Some ''Chile'', Year = 2001, Covariates = (), Target = 10\<rparr> \<and>
   future_row (map feature_row.truncate (hist_of example_env ''Chile'')) ''Chile'' 2005 =
     [\<lparr>Country = Some ''Chile'', Year = 2005, Covariates = ()\<rparr>] \<and>
   example_linear [\<lparr>Country = Some ''Chile'', Year = 2005, Covariates = ()\<rparr>] =
     Inr [p_predicted chile_response]"
proof -
  have c: "country chile_request \<in> set (COUNTRIES example_env)"
    by (simp add: chile_request_def example_countries)
  show ?thesis
    using future_row_holds_last [OF c] c predict_chile
    by (simp add: chile_request_def chile_response_def hist_chile feature_row.truncate_def
        example_linear_def)
qed

text \<open>
  C10. A successful response carries \<open>metrics\<close>, always the empty mapping, and
  \<open>model_used\<close>, the key of the selected regressor: one of \<open>lasso\<close>, \<open>ridge\<close>, \<open>knn\<close>,
  equal to the lowercased requested name that matched or to the default \<open>lasso\<close>.
\<close>

theorem predict_extra_fields:
  assumes "predict e body = Inr r"
  shows "p_metrics r = Map.empty \<and>
         p_model_used r = fst (select_model e (models body)) \<and>
         p_model_used r \<in> {''lasso'', ''ridge'', ''knn''} \<and>
         map_of (model_map e) (p_model_used r) = Some (snd (select_model e (models body))) \<and>
         (p_model_used r = ''lasso'' \<or> (\<exists>m \<in> set (models body). p_model_used r = lower m))"
proof -
  from assms have "p_metrics r = Map.empty"
    and "p_model_used r = fst (select_model e (models body))"
    by (elim predict_InrE, simp)+
  with select_model_key [of e "models body"] show ?thesis
    by simp
qed

theorem predict_extra_fields_witness:
  "predict example_env chile_request = Inr chile_response \<and>
   p_metrics chile_response = Map.empty \<and>
   p_model_used chile_response = ''knn'' \<and>
   p_model_used chile_response = lower ''KNN'' \<and>
   map_of (model_map example_env) (p_model_used chile_response) = Some example_linear"
proof -
  have sel: "map_of (model_map example_env) (p_model_used chile_response) = Some example_linear"
    using predict_extra_fields [OF predict_chile] unfolding chile_selected by blast
  then show ?thesis
    using predict_chile by (simp add: chile_response_def lower_examples)
qed

subsection \<open>GET /analysis\<close>

lemma country_analysis_known:
  "c \<in> set (COUNTRIES e) \<Longrightarrow>
   country_analysis e c =
     Inr \<lparr>a_years = map Year (hist_of e c), a_true_values = map Target (hist_of e c)\<rparr>"
  by (simp add: country_analysis_def hist_of_nonempty Let_def)

lemma zip_years_targets:
  "zip (map Year hist) (map Target hist) = map (\<lambda>h. (Year h, Target h)) hist"
  by (induction hist) simp_all

text \<open>
  C8. For a country of \<open>COUNTRIES\<close> the analysis succeeds; the years it returns are in
  non-decreasing order, and the pairs (year, true value), position by position, are
  exactly the (Year, Target) pairs of the table rows of that country.
\<close>

theorem country_analysis_sorted:
  assumes "c \<in> set (COUNTRIES e)"
  shows "\<exists>r. country_analysis e c = Inr r \<and>
           sorted (a_years r) \<and>
           length (a_true_values r) = length (a_years r) \<and>
           mset (zip (a_years r) (a_true_values r)) =
             mset (map (\<lambda>h. (Year h, Target h)) (filter (\<lambda>h. Country h = Some c) (df e)))"
proof -
  let ?r = "\<lparr>a_years = map Year (hist_of e c), a_true_values = map Target (hist_of e c)\<rparr>"
  from assms have "country_analysis e c = Inr ?r"
    by (rule country_analysis_known)
  moreover have "sorted (a_years ?r)"
    by (simp add: sorted_hist_of)
  moreover have "length (a_true_values ?r) = length (a_years ?r)"
    by simp
  moreover have "mset (zip (a_years ?r) (a_true_values ?r)) =
      mset (map (\<lambda>h. (Year h, Target h)) (filter (\<lambda>h. Country h = Some c) (df e)))"
    by (simp add: zip_years_targets mset_hist_of)
  ultimately show ?thesis
    by blast
qed

theorem country_analysis_sorted_witness:
  "''Brazil'' \<in> set (COUNTRIES example_env) \<and>
   country_analysis example_env ''Brazil'' =
     Inr \<lparr>a_years = [2018, 2019, 2020], a_true_values = [100, 105, 110]\<rparr> \<and>
   sorted [2018, 2019, 2020 :: int]"
proof -
  have c: "''Brazil'' \<in> set (COUNTRIES example_env)"
    by (simp add: example_countries)
  from country_analysis_sorted [OF c] c show ?thesis
    by (simp add: country_analysis_known hist_brazil)
qed

text \<open>
  C9. A country of \<open>COUNTRIES\<close> has at least one table row, because the list is built
  from the same \<open>Country\<close> column: \<open>build_features\<close> returns its triple and does not
  raise, the analysis returns its payload, and no input at all makes the analysis
  answer 404.
\<close>

theorem known_country_has_rows:
  assumes "c \<in> set (COUNTRIES e)"
  shows "hist_of e c \<noteq> [] \<and>
         build_features e c =
           Inr (hist_of e c, map feature_row.truncate (hist_of e c), map Target (hist_of e c)) \<and>
         (\<exists>r. country_analysis e c = Inr r) \<and>
         status_code (country_analysis e c) = 200 \<and>
         (\<forall>c'. status_code (country_analysis e c') \<noteq> 404)"
proof -
  from assms have ne: "hist_of e c \<noteq> []"
    by (rule hist_of_nonempty)
  have "status_code (country_analysis e c') \<noteq> 404" for c'
    by (cases "c' \<in> set (COUNTRIES e)")
       (simp_all add: country_analysis_known, simp add: country_analysis_def)
  with ne assms show ?thesis
    by (simp add: build_features_def country_analysis_known Let_def)
qed

theorem known_country_has_rows_witness:
  "''Nauru'' \<in> set (COUNTRIES example_env) \<and>
   hist_of example_env ''Nauru'' \<noteq> [] \<and>
   build_features example_env ''Nauru'' =
     Inr ([\<lparr>Country = Some ''Nauru'', Year = 2010, Covariates = (), Target = 0\<rparr>],
          [\<lparr>Country = Some ''Nauru'', Year = 2010, Covariates = ()\<rparr>], [0]) \<and>
   status_code (country_analysis example_env ''Nauru'') = 200 \<and>
   status_code (country_analysis example_env ''Mars'') = 400"
proof -
  have c: "''Nauru'' \<in> set (COUNTRIES example_env)"
    by (simp add: example_countries)
  from known_country_has_rows [OF c] c show ?thesis
    by (simp add: hist_nauru feature_row.truncate_def country_analysis_def example_countries)
qed

subsection \<open>GET /compare\<close>

lemma compare_loop_model_map:
  "compare_loop (model_map e) X Map.empty =
     [''lasso'' \<mapsto> (case lasso_fixed e X of Inr preds \<Rightarrow> preds | Inl ex \<Rightarrow> []),
      ''ridge'' \<mapsto> (case ridge_fixed e X of Inr preds \<Rightarrow> preds | Inl ex \<Rightarrow> []),
      ''knn'' \<mapsto> (case knn_fixed e X of Inr preds \<Rightarrow> preds | Inl ex \<Rightarrow> [])]"
  by (simp add: model_map_def)

text \<open>
  C5. For a country of \<open>COUNTRIES\<close> the comparison returns a payload (status 200): each
  key holds the predictions of its own regressor when that call returns and the empty
  sequence when it raises, independently of the other two; when all three raise, all
  three keys hold the empty sequence.
\<close>

theorem compare_never_raises:
  assumes "c \<in> set (COUNTRIES e)"
  shows "\<exists>r. compare e c = Inr r \<and>
           status_code (compare e c) = 200 \<and>
           c_years r = map Year (hist_of e c) \<and>
           c_lasso r = (case lasso_fixed e (map feature_row.truncate (hist_of e c)) of
                          Inr preds \<Rightarrow> preds | Inl ex \<Rightarrow> []) \<and>
           c_ridge r = (case ridge_fixed e (map feature_row.truncate (hist_of e c)) of
                          Inr preds \<Rightarrow> preds | Inl ex \<Rightarrow> []) \<and>
           c_knn r = (case knn_fixed e (map feature_row.truncate (hist_of e c)) of
                        Inr preds \<Rightarrow> preds | Inl ex \<Rightarrow> []) \<and>
           ((\<forall>(name, mdl) \<in> set (model_map e).
                \<exists>ex. mdl (map feature_row.truncate (hist_of e c)) = Inl ex) \<longrightarrow>
              c_lasso r = [] \<and> c_ridge r = [] \<and> c_knn r = [])"
  using assms
  by (auto simp add: compare_def compare_loop_model_map dict_get_def model_map_def Let_def)

theorem compare_never_raises_witness:
  "''Chile'' \<in> set (COUNTRIES example_env) \<and>
   compare example_env ''Chile'' =
     Inr \<lparr>c_years = [2000, 2001], c_lasso = [0, 0], c_ridge = [], c_knn = [7, 11]\<rparr> \<and>
   status_code (compare example_env ''Chile'') = 200 \<and>
   ''Chile'' \<in> set (COUNTRIES (example_env\<lparr>lasso_fixed := example_broken, knn_fixed := example_broken\<rparr>)) \<and>
   compare (example_env\<lparr>lasso_fixed := example_broken, knn_fixed := example_broken\<rparr>) ''Chile'' =
     Inr \<lparr>c_years = [2000, 2001], c_lasso = [], c_ridge = [], c_knn = []\<rparr>"
proof -
  let ?e = "example_env\<lparr>lasso_fixed := example_broken, knn_fixed := example_broken\<rparr>"
  have c: "''Chile'' \<in> set (COUNTRIES example_env)"
    by (simp add: example_countries)
  have c': "''Chile'' \<in> set (COUNTRIES ?e)"
    using c by (simp add: COUNTRIES_def)
  have h: "hist_of ?e ''Chile'' = hist_of example_env ''Chile''"
    by (simp add: hist_of_def)
  have m: "lasso_fixed ?e = example_broken" "ridge_fixed ?e = example_broken"
    "knn_fixed ?e = example_broken"
    by (simp_all add: example_models)
  from compare_never_raises [OF c] compare_never_raises [OF c'] c c'
  show ?thesis
    by (auto simp add: h m hist_chile example_models example_zero_def example_broken_def
        example_linear_def feature_row.truncate_def)
qed

subsection \<open>GET /metrics\<close>

lemma metrics_loop_model_map:
  "metrics_loop e (model_map e) X y Map.empty =
     [''lasso'' \<mapsto> entry_of e (lasso_fixed e) X y,
      ''ridge'' \<mapsto> entry_of e (ridge_fixed e) X y,
      ''knn'' \<mapsto> entry_of e (knn_fixed e) X y]"
  by (simp add: model_map_def)

lemma metrics_lookup:
  assumes "(name, mdl) \<in> set (model_map e)"
  shows "metrics_loop e (model_map e) X y Map.empty name = Some (entry_of e mdl X y)"
  using assms by (auto simp add: metrics_loop_model_map) (auto simp add: model_map_def)

lemma metrics_known:
  "c \<in> set (COUNTRIES e) \<Longrightarrow>
   metrics e c =
     Inr (metrics_loop e (model_map e) (map feature_row.truncate (hist_of e c))
            (map Target (hist_of e c)) Map.empty)"
  by (simp add: metrics_def build_features_def hist_of_nonempty Let_def)

lemma mape_of_same_length:
  "length y_pred = length y_true \<Longrightarrow>
   mape_of y_true y_pred =
     Inr (if \<exists>t \<in> set y_true. t \<noteq> 0
          then Some (np_mean (map (\<lambda>(t, p). \<bar>(t - p) / t\<bar>)
                       (filter (\<lambda>(t, p). t \<noteq> 0) (zip y_true y_pred))) * 100)
          else None)"
  by (simp add: mape_of_def)

lemma example_metric_same_length:
  "length t = length p \<Longrightarrow> t \<noteq> [] \<Longrightarrow> example_metric f t p = Inr (f t p)"
  by (simp add: example_metric_def)

text \<open>
  C6. For a known country and a regressor of the registry that returns one prediction
  per row, when the prediction and the three scikit-learn scores are computed, the
  entry of that regressor has MAPE null exactly when every true value of the country
  is zero; otherwise MAPE is the mean of \<open>|(true - predicted) / true|\<close> over the points
  with a non-zero true value, times 100.
\<close>

theorem metrics_mape:
  assumes "c \<in> set (COUNTRIES e)"
    and "(name, mdl) \<in> set (model_map e)"
    and "one_per_row mdl"
    and "mdl (map feature_row.truncate (hist_of e c)) = Inr y_pred"
    and "mean_absolute_error e (map Target (hist_of e c)) y_pred = Inr mae"
    and "mean_squared_error e (map Target (hist_of e c)) y_pred = Inr mse"
    and "r2_score e (map Target (hist_of e c)) y_pred = Inr r2"
  shows "\<exists>results entry.
           metrics e c = Inr results \<and> results name = Some entry \<and>
           (MAPE entry = None \<longleftrightarrow> (\<forall>t \<in> set (map Target (hist_of e c)). t = 0)) \<and>
           ((\<exists>t \<in> set (map Target (hist_of e c)). t \<noteq> 0) \<longrightarrow>
              MAPE entry =
                Some (np_mean (map (\<lambda>(t, p). \<bar>(t - p) / t\<bar>)
                        (filter (\<lambda>(t, p). t \<noteq> 0)
                           (zip (map Target (hist_of e c)) y_pred))) * 100))"
proof -
  let ?X = "map feature_row.truncate (hist_of e c)"
  let ?y = "map Target (hist_of e c)"
  let ?entry = "entry_of e mdl ?X ?y"
  from assms(3,4) have len: "length y_pred = length ?y"
    by (auto simp add: one_per_row_def)
  have m: "metrics e c = Inr (metrics_loop e (model_map e) ?X ?y Map.empty)"
    using assms(1) by (rule metrics_known)
  have l: "metrics_loop e (model_map e) ?X ?y Map.empty name = Some ?entry"
    using assms(2) by (rule metrics_lookup)
  have mape: "MAPE ?entry =
      (if \<exists>t \<in> set ?y. t \<noteq> 0
       then Some (np_mean (map (\<lambda>(t, p). \<bar>(t - p) / t\<bar>)
                    (filter (\<lambda>(t, p). t \<noteq> 0) (zip ?y y_pred))) * 100)
       else None)"
    using assms(4-7) by (simp add: entry_of_def score_model_def mape_of_same_length [OF len])
  have a: "(MAPE ?entry = None \<longleftrightarrow> (\<forall>t \<in> set ?y. t = 0))"
    unfolding mape by auto
  have b: "(\<exists>t \<in> set ?y. t \<noteq> 0) \<longrightarrow>
      MAPE ?entry = Some (np_mean (map (\<lambda>(t, p). \<bar>(t - p) / t\<bar>)
                    (filter (\<lambda>(t, p). t \<noteq> 0) (zip ?y y_pred))) * 100)"
    unfolding mape by simp
  show ?thesis
  proof (intro exI conjI)
    show "metrics e c = Inr (metrics_loop e (model_map e) ?X ?y Map.empty)"
      by (rule m)
    show "metrics_loop e (model_map e) ?X ?y Map.empty name = Some ?entry"
      by (rule l)
    show "(MAPE ?entry = None \<longleftrightarrow> (\<forall>t \<in> set ?y. t = 0))"
      by (rule a)
    show "(\<exists>t \<in> set ?y. t \<noteq> 0) \<longrightarrow>
      MAPE ?entry = Some (np_mean (map (\<lambda>(t, p). \<bar>(t - p) / t\<bar>)
                    (filter (\<lambda>(t, p). t \<noteq> 0) (zip ?y y_pred))) * 100)"
      by (rule b)
  qed
qed

theorem metrics_mape_witness:
  "''Chile'' \<in> set (COUNTRIES example_env) \<and>
   (''knn'', example_linear) \<in> set (model_map example_env) \<and>
   one_per_row example_linear \<and>
   example_linear (map feature_row.truncate (hist_of example_env ''Chile'')) = Inr [7, 11] \<and>
   map Target (hist_of example_env ''Chile'') = [8, 10] \<and>
   (\<exists>results entry. metrics example_env ''Chile'' = Inr results \<and>
      results ''knn'' = Some entry \<and> MAPE entry = Some (45 / 4)) \<and>
   ''Nauru'' \<in> set (COUNTRIES example_env) \<and>
   (''lasso'', example_zero) \<in> set (model_map example_env) \<and>
   one_per_row example_zero \<and>
   example_zero (map feature_row.truncate (hist_of example_env ''Nauru'')) = Inr [0] \<and>
   map Target (hist_of example_env ''Nauru'') = [0] \<and>
   (\<exists>results entry. metrics example_env ''Nauru'' = Inr results \<and>
      results ''lasso'' = Some entry \<and> MAPE entry = None)"
proof -
  have c: "''Chile'' \<in> set (COUNTRIES example_env)" "''Nauru'' \<in> set (COUNTRIES example_env)"
    by (simp_all add: example_countries)
  have k: "(''knn'', example_linear) \<in> set (model_map example_env)"
    "(''lasso'', example_zero) \<in> set (model_map example_env)"
    by (simp_all add: model_map_def example_models)
  have p: "example_linear (map feature_row.truncate (hist_of example_env ''Chile'')) = Inr [7, 11]"
    "example_zero (map feature_row.truncate (hist_of example_env ''Nauru'')) = Inr [0]"
    by (simp_all add: hist_chile hist_nauru example_linear_def example_zero_def
        feature_row.truncate_def)
  have t: "map Target (hist_of example_env ''Chile'') = [8, 10]"
    "map Target (hist_of example_env ''Nauru'') = [0]"
    by (simp_all add: hist_chile hist_nauru)
  have sk: "mean_absolute_error example_env (map Target (hist_of example_env ''Chile'')) [7, 11] =
        Inr (np_mean (map2 (\<lambda>a b. \<bar>a - b\<bar>) [8, 10] [7, 11]))"
    "mean_squared_error example_env (map Target (hist_of example_env ''Chile'')) [7, 11] =
        Inr (np_mean (map2 (\<lambda>a b. (a - b)\<^sup>2) [8, 10] [7, 11]))"
    "r2_score example_env (map Target (hist_of example_env ''Chile'')) [7, 11] =
        Inr (1 - sum_list (map2 (\<lambda>a b. (a - b)\<^sup>2) [8, 10] [7, 11])
                 / sum_list (map (\<lambda>a. (a - np_mean [8, 10])\<^sup>2) [8, 10]))"
    "mean_absolute_error example_env (map Target (hist_of example_env ''Nauru'')) [0] =
        Inr (np_mean (map2 (\<lambda>a b. \<bar>a - b\<bar>) [0] [0]))"
    "mean_squared_error example_env (map Target (hist_of example_env ''Nauru'')) [0] =
        Inr (np_mean (map2 (\<lambda>a b. (a - b)\<^sup>2) [0] [0]))"
    "r2_score example_env (map Target (hist_of example_env ''Nauru'')) [0] =
        Inr (1 - sum_list (map2 (\<lambda>a b. (a - b)\<^sup>2) [0] [0])
                 / sum_list (map (\<lambda>a. (a - np_mean [0])\<^sup>2) [0]))"
    unfolding t by (simp_all add: example_env_def example_metric_same_length)
  note chile = metrics_mape [OF c(1) k(1) one_per_row_examples(3) p(1) sk(1-3)]
  note nauru = metrics_mape [OF c(2) k(2) one_per_row_examples(1) p(2) sk(4-6)]
  have "\<exists>results entry. metrics example_env ''Chile'' = Inr results \<and>
      results ''knn'' = Some entry \<and> MAPE entry = Some (45 / 4)"
    using chile by (auto simp add: t np_mean_def)
  moreover have "\<exists>results entry. metrics example_env ''Nauru'' = Inr results \<and>
      results ''lasso'' = Some entry \<and> MAPE entry = None"
    using nauru by (auto simp add: t)
  ultimately show ?thesis
    using c k p t one_per_row_examples by simp
qed

end
